theory Spec2Isabelle
  imports Main
begin

section \<open>Field-to-record conversion\<close>

text \<open>
  A field entry is a pair of a field name and a string value, as \<^verbatim>\<open>FormData\<close> yields them.
  A parsed record maps a field name to a single string or to a sequence of strings; the
  two shapes are kept apart by a tagged value.
\<close>

type_synonym entry = "string \<times> string"

datatype field_value = Scalar string | Multi "string list"

type_synonym parsed = "string \<rightharpoonup> field_value"

text \<open>
  Modelled from the spec: \<^verbatim>\<open>parseFormData\<close> of \<^verbatim>\<open>./utils/parseFormData\<close>, which both hooks
  import and which is not among the source files. The spec describes a converter that
  iterates the entries in order and collects entries sharing a name into a sequence rather
  than overwriting: the first value of a name is stored as it is, the second turns it into
  a sequence of both, each later one is appended.
\<close>

definition add_entry :: "parsed \<Rightarrow> entry \<Rightarrow> parsed" where
  "add_entry data e =
     (case data (fst e) of
        None \<Rightarrow> data(fst e \<mapsto> Scalar (snd e))
      | Some (Scalar u) \<Rightarrow> data(fst e \<mapsto> Multi [u, snd e])
      | Some (Multi us) \<Rightarrow> data(fst e \<mapsto> Multi (us @ [snd e])))"

definition parseFormData :: "entry list \<Rightarrow> parsed" where
  "parseFormData entries = foldl add_entry Map.empty entries"

text \<open>The values entered under one name, in occurrence order.\<close>

definition values_of :: "string \<Rightarrow> entry list \<Rightarrow> string list" where
  "values_of name entries = map snd (filter (\<lambda>e. fst e = name) entries)"

text \<open>The shape the contract of the converter gives to the values of one name.\<close>

fun shape :: "string list \<Rightarrow> field_value option" where
  "shape [] = None"
| "shape [v] = Some (Scalar v)"
| "shape vs = Some (Multi vs)"

section \<open>The host's form element\<close>

text \<open>
  The hooks reach the form through four primitives of the host runtime:
  \<^verbatim>\<open>new FormData(form)\<close>, \<^verbatim>\<open>form.reset()\<close>, \<^verbatim>\<open>form.elements.namedItem(name)\<close> and the
  \<^verbatim>\<open>value\<close> property of what \<^verbatim>\<open>namedItem\<close> returns. They are written out here as the HTML
  standard defines them, for a form whose listed elements, in tree order, are of these kinds:
  \<^item> an \<^verbatim>\<open>input\<close> of type \<^verbatim>\<open>text\<close>: its current value and its \<^verbatim>\<open>value\<close> attribute;
  \<^item> a \<^verbatim>\<open>textarea\<close>: its raw value and its default value;
  \<^item> an \<^verbatim>\<open>input\<close> of type \<^verbatim>\<open>hidden\<close>: its \<^verbatim>\<open>value\<close> attribute (the empty string when absent);
  \<^item> an \<^verbatim>\<open>input\<close> of type \<^verbatim>\<open>checkbox\<close> or \<^verbatim>\<open>radio\<close>: its \<^verbatim>\<open>value\<close> attribute if it has one,
    its checkedness and whether it has the \<^verbatim>\<open>checked\<close> attribute;
  \<^item> an \<^verbatim>\<open>input\<close> of type \<^verbatim>\<open>file\<close>: the names of its selected files;
  \<^item> a \<^verbatim>\<open>select\<close>: whether it is \<^verbatim>\<open>multiple\<close>, and for each option its value, its
    selectedness and whether it has the \<^verbatim>\<open>selected\<close> attribute;
  \<^item> a \<^verbatim>\<open>fieldset\<close>, which \<^verbatim>\<open>form.elements\<close> lists but which has no \<^verbatim>\<open>value\<close> property and
    submits nothing.
  Every element has an \<^verbatim>\<open>id\<close> and a \<^verbatim>\<open>name\<close> (the empty string when the attribute is absent)
  and is disabled or not. Outside the model are the other types of \<^verbatim>\<open>input\<close>, buttons,
  \<^verbatim>\<open>output\<close>, \<^verbatim>\<open>object\<close>, custom elements and images, the \<^verbatim>\<open>dirname\<close> attribute, a hidden
  input named \<^verbatim>\<open>_charset_\<close>, hard-wrapped textareas, a \<^verbatim>\<open>select\<close> with a \<^verbatim>\<open>size\<close> attribute,
  disabled options, and listeners of the events the primitives fire. A string is a sequence
  of characters without unpaired surrogates, and a selected file is stood for by its name.
\<close>

datatype widget =
    TextInput string string
  | TextArea string string
  | HiddenInput string
  | Checkbox "string option" bool bool
  | Radio "string option" bool bool
  | FileInput "string list"
  | Select bool "(string \<times> bool \<times> bool) list"
  | Fieldset

datatype control = Control (c_id: string) (c_name: string) (c_disabled: bool) (c_widget: widget)

type_synonym form = "control list"

definition set_widget :: "control \<Rightarrow> widget \<Rightarrow> control" where
  "set_widget c w = Control (c_id c) (c_name c) (c_disabled c) w"

subsection \<open>Line breaks in values\<close>

text \<open>
  The value of a text input never holds a line break: the value sanitization algorithm of
  type \<^verbatim>\<open>text\<close> strips every line feed and carriage return. A textarea keeps its raw value and
  reads it with each carriage return and line feed pair and each lone carriage return turned into a
  line feed.
\<close>

definition line_feed :: char where
  "line_feed = CHR 0x0A"

definition carriage_return :: char where
  "carriage_return = CHR 0x0D"

definition strip_newlines :: "string \<Rightarrow> string" where
  "strip_newlines v = filter (\<lambda>c. c \<noteq> line_feed \<and> c \<noteq> carriage_return) v"

fun normalize_newlines :: "string \<Rightarrow> string" where
  "normalize_newlines [] = []"
| "normalize_newlines [c] = [if c = carriage_return then line_feed else c]"
| "normalize_newlines (c # d # ds) =
     (if c = carriage_return
      then (if d = line_feed then line_feed # normalize_newlines ds
            else line_feed # normalize_newlines (d # ds))
      else c # normalize_newlines (d # ds))"


subsection \<open>Constructing the entry list\<close>

text \<open>
  \<^verbatim>\<open>new FormData(form)\<close> walks the controls in tree order. It skips a disabled control, a
  checkbox or radio button that is not checked, and a control whose name is absent or empty.
  A select yields one entry per selected option, a checked checkbox or radio button its
  \<^verbatim>\<open>value\<close> attribute or \<^verbatim>\<open>on\<close>, a file input one entry per selected file or one empty file,
  every other control its value. A fieldset is not submittable.
\<close>

fun checked_value :: "string option \<Rightarrow> string" where
  "checked_value None = ''on''"
| "checked_value (Some a) = a"

fun widget_values :: "widget \<Rightarrow> string list" where
  "widget_values (TextInput cur attr) = [strip_newlines cur]"
| "widget_values (TextArea raw dflt) = [normalize_newlines raw]"
| "widget_values (HiddenInput attr) = [attr]"
| "widget_values (Checkbox attr checked dflt) = (if checked then [checked_value attr] else [])"
| "widget_values (Radio attr checked dflt) = (if checked then [checked_value attr] else [])"
| "widget_values (FileInput files) = (if files = [] then [[]] else files)"
| "widget_values (Select multiple opts) = map fst (filter (\<lambda>opt. fst (snd opt)) opts)"
| "widget_values Fieldset = []"

definition control_entries :: "control \<Rightarrow> entry list" where
  "control_entries c =
     (if c_disabled c \<or> c_name c = [] then []
      else map (Pair (c_name c)) (widget_values (c_widget c)))"

definition FormData :: "form \<Rightarrow> entry list" where
  "FormData f = concat (map control_entries f)"




subsection \<open>Looking a control up\<close>

text \<open>
  \<^verbatim>\<open>form.elements.namedItem(name)\<close>: \<^verbatim>\<open>null\<close> for the empty name; otherwise it considers the
  listed elements whose \<^verbatim>\<open>id\<close> or whose \<^verbatim>\<open>name\<close> is the name given, and returns \<^verbatim>\<open>null\<close> when
  there is none, the element when there is exactly one, and a \<^verbatim>\<open>RadioNodeList\<close> of all of them
  otherwise. Controls are identified by their position in the form.
\<close>

datatype named_item = Element nat | RadioNodeList "nat list"

definition matches :: "control \<Rightarrow> string \<Rightarrow> bool" where
  "matches c name = (c_id c = name \<or> c_name c = name)"

definition matching :: "form \<Rightarrow> string \<Rightarrow> nat list" where
  "matching f name = filter (\<lambda>i. matches (f ! i) name) [0..<length f]"

definition namedItem :: "form \<Rightarrow> string \<Rightarrow> named_item option" where
  "namedItem f name =
     (if name = [] then None
      else case matching f name of
             [] \<Rightarrow> None
           | [i] \<Rightarrow> Some (Element i)
           | i # j # js \<Rightarrow> Some (RadioNodeList (i # j # js)))"

text \<open>
  \<^verbatim>\<open>'value' in element\<close>: every input, textarea and select has the property, a fieldset has
  not, and a \<^verbatim>\<open>RadioNodeList\<close> has one of its own.
\<close>

fun value_in :: "form \<Rightarrow> named_item \<Rightarrow> bool" where
  "value_in f (Element i) = (c_widget (f ! i) \<noteq> Fieldset)"
| "value_in f (RadioNodeList js) = True"

text \<open>
  The form looks a property up among its named properties before its built-in ones: when a
  listed element has \<^verbatim>\<open>elements\<close> or \<^verbatim>\<open>reset\<close> as its \<^verbatim>\<open>id\<close> or \<^verbatim>\<open>name\<close>, then \<^verbatim>\<open>form.elements\<close>
  or \<^verbatim>\<open>form.reset\<close> is that element, and \<^verbatim>\<open>form.elements.namedItem(name)\<close> or
  \<^verbatim>\<open>form.reset()\<close> throws a \<^verbatim>\<open>TypeError\<close>.
\<close>

definition shadows :: "form \<Rightarrow> string \<Rightarrow> bool" where
  "shadows f property = list_ex (\<lambda>c. matches c property) f"

subsection \<open>Assigning to the value property\<close>

text \<open>
  \<^verbatim>\<open>element.value = value\<close> on a single control:
  \<^item> a text input takes the sanitized value as its current value;
  \<^item> a textarea takes the value as its raw value;
  \<^item> a hidden input, a checkbox and a radio button have the value written to their
    \<^verbatim>\<open>value\<close> attribute;
  \<^item> a file input has its selected files emptied by the empty string and throws an
    \<^verbatim>\<open>InvalidStateError\<close> for any other value;
  \<^item> a select has every option deselected and then the first option whose value is the one
    assigned selected.
\<close>

type_synonym exn = string

fun select_value :: "string \<Rightarrow> (string \<times> bool \<times> bool) list \<Rightarrow> (string \<times> bool \<times> bool) list" where
  "select_value v [] = []"
| "select_value v (opt # opts) =
     (if fst opt = v
      then (fst opt, True, snd (snd opt)) # map (\<lambda>p. (fst p, False, snd (snd p))) opts
      else (fst opt, False, snd (snd opt)) # select_value v opts)"

fun set_widget_value :: "widget \<Rightarrow> string \<Rightarrow> exn + widget" where
  "set_widget_value (TextInput cur attr) v = Inr (TextInput (strip_newlines v) attr)"
| "set_widget_value (TextArea raw dflt) v = Inr (TextArea v dflt)"
| "set_widget_value (HiddenInput attr) v = Inr (HiddenInput v)"
| "set_widget_value (Checkbox attr checked dflt) v = Inr (Checkbox (Some v) checked dflt)"
| "set_widget_value (Radio attr checked dflt) v = Inr (Radio (Some v) checked dflt)"
| "set_widget_value (FileInput files) v =
     (if v = [] then Inr (FileInput []) else Inl ''InvalidStateError'')"
| "set_widget_value (Select multiple opts) v = Inr (Select multiple (select_value v opts))"
| "set_widget_value Fieldset v = Inr Fieldset"

text \<open>
  Checking a radio button unchecks the other radio buttons of its group: those of the form
  with the same, non-empty name.
\<close>

definition uncheck_group :: "string \<Rightarrow> control \<Rightarrow> control" where
  "uncheck_group g c =
     (case c_widget c of
        Radio attr checked dflt \<Rightarrow>
          if g \<noteq> [] \<and> c_name c = g then set_widget c (Radio attr False dflt) else c
      | _ \<Rightarrow> c)"

definition check_widget :: "widget \<Rightarrow> widget" where
  "check_widget w = (case w of Radio attr checked dflt \<Rightarrow> Radio attr True dflt | _ \<Rightarrow> w)"

definition check_radio :: "form \<Rightarrow> nat \<Rightarrow> form" where
  "check_radio f i =
     (map (uncheck_group (c_name (f ! i))) f)[i := set_widget (f ! i) (check_widget (c_widget (f ! i)))]"

text \<open>
  The setter of a \<^verbatim>\<open>RadioNodeList\<close> looks for the first radio button among its elements whose
  \<^verbatim>\<open>value\<close> attribute is the value assigned (for the value \<^verbatim>\<open>on\<close>, a radio button without the
  attribute counts too) and checks it; without such a radio button it does nothing.
\<close>

definition radio_matches :: "string \<Rightarrow> control \<Rightarrow> bool" where
  "radio_matches v c =
     (case c_widget c of
        Radio attr checked dflt \<Rightarrow>
          if v = ''on'' then attr = None \<or> attr = Some v else attr = Some v
      | _ \<Rightarrow> False)"

definition radio_target :: "form \<Rightarrow> nat list \<Rightarrow> string \<Rightarrow> nat option" where
  "radio_target f js v = find (\<lambda>j. radio_matches v (f ! j)) js"

fun assign_value :: "form \<Rightarrow> named_item \<Rightarrow> string \<Rightarrow> exn + form" where
  "assign_value f (Element i) v =
     (case set_widget_value (c_widget (f ! i)) v of
        Inl e \<Rightarrow> Inl e
      | Inr w \<Rightarrow> Inr (f[i := set_widget (f ! i) w]))"
| "assign_value f (RadioNodeList js) v =
     (case radio_target f js v of
        None \<Rightarrow> Inr f
      | Some j \<Rightarrow> Inr (check_radio f j))"

subsection \<open>Resetting the form\<close>

text \<open>
  \<^verbatim>\<open>form.reset()\<close> resets each control in tree order: a text input to its \<^verbatim>\<open>value\<close>
  attribute, a textarea to its default value, a checkbox or radio button to checked if it
  has the \<^verbatim>\<open>checked\<close> attribute, a file input to no file, each option of a select to selected
  if it has the \<^verbatim>\<open>selected\<close> attribute. A hidden input has nothing but its attribute. Since
  checking a radio button unchecks its group, a radio button ends checked if it has the
  attribute and no later radio button of its group has. A select that is not multiple then
  gets its first option selected when none is, and keeps only the last of several.
\<close>

fun keep_last :: "(string \<times> bool \<times> bool) list \<Rightarrow> (string \<times> bool \<times> bool) list" where
  "keep_last [] = []"
| "keep_last (opt # opts) =
     (fst opt, fst (snd opt) \<and> \<not> list_ex (\<lambda>p. fst (snd p)) opts, snd (snd opt)) # keep_last opts"

fun select_first :: "(string \<times> bool \<times> bool) list \<Rightarrow> (string \<times> bool \<times> bool) list" where
  "select_first [] = []"
| "select_first (opt # opts) = (fst opt, True, snd (snd opt)) # opts"

definition selectedness_setting :: "bool \<Rightarrow> (string \<times> bool \<times> bool) list \<Rightarrow> (string \<times> bool \<times> bool) list" where
  "selectedness_setting multiple opts =
     (if multiple then opts
      else if list_ex (\<lambda>p. fst (snd p)) opts then keep_last opts
      else select_first opts)"

fun reset_widget :: "bool \<Rightarrow> widget \<Rightarrow> widget" where
  "reset_widget later (TextInput cur attr) = TextInput (strip_newlines attr) attr"
| "reset_widget later (TextArea raw dflt) = TextArea dflt dflt"
| "reset_widget later (HiddenInput attr) = HiddenInput attr"
| "reset_widget later (Checkbox attr checked dflt) = Checkbox attr dflt dflt"
| "reset_widget later (Radio attr checked dflt) = Radio attr (dflt \<and> \<not> later) dflt"
| "reset_widget later (FileInput files) = FileInput []"
| "reset_widget later (Select multiple opts) =
     Select multiple (selectedness_setting multiple (map (\<lambda>p. (fst p, snd (snd p), snd (snd p))) opts))"
| "reset_widget later Fieldset = Fieldset"

definition default_checked_in :: "string \<Rightarrow> control \<Rightarrow> bool" where
  "default_checked_in g c =
     (case c_widget c of
        Radio attr checked dflt \<Rightarrow> dflt \<and> g \<noteq> [] \<and> c_name c = g
      | _ \<Rightarrow> False)"

fun native_reset :: "form \<Rightarrow> form" where
  "native_reset [] = []"
| "native_reset (c # cs) =
     set_widget c (reset_widget (list_ex (default_checked_in (c_name c)) cs) (c_widget c))
       # native_reset cs"



text \<open>
  What \<^verbatim>\<open>reset\<close> goes by: a control with its current state blanked, so that only its
  attributes are left.
\<close>

fun static_widget :: "widget \<Rightarrow> widget" where
  "static_widget (TextInput cur attr) = TextInput [] attr"
| "static_widget (TextArea raw dflt) = TextArea [] dflt"
| "static_widget (HiddenInput attr) = HiddenInput attr"
| "static_widget (Checkbox attr checked dflt) = Checkbox attr False dflt"
| "static_widget (Radio attr checked dflt) = Radio attr False dflt"
| "static_widget (FileInput files) = FileInput []"
| "static_widget (Select multiple opts) = Select multiple (map (\<lambda>p. (fst p, False, snd (snd p))) opts)"
| "static_widget Fieldset = Fieldset"

definition static :: "control \<Rightarrow> control" where
  "static c = set_widget c (static_widget (c_widget c))"



section \<open>The hook with four operations\<close>

text \<open>
  \<^verbatim>\<open>ref.current\<close> is \<open>None\<close> while no form is mounted and \<open>Some f\<close> while the form \<open>f\<close> is.
  The host sets it; every operation reads it anew, so it is an argument of each.

  What a submit handler does to its collaborators is returned as the list of its effects in
  the order performed: \<^verbatim>\<open>event.preventDefault()\<close> on the event it was given, the construction
  of a \<^verbatim>\<open>FormData\<close> from the form, and the call of the caller's callback with its argument.
  The callback is the caller's code: it returns (\<open>None\<close>) or throws (\<open>Some\<close> of what it
  throws), and the handler passes either on.
\<close>

datatype 'e effect = PreventDefault 'e | NewFormData | Callback parsed

definition onSubmit :: "(parsed \<Rightarrow> exn option) \<Rightarrow> 'e \<Rightarrow> form option \<Rightarrow> 'e effect list \<times> exn option" where
  "onSubmit submit event current =
     (let prevented = [PreventDefault event] in
      case current of
        None \<Rightarrow> (prevented, None)
      | Some f \<Rightarrow>
          (let formData = FormData f;
               data = parseFormData formData
           in (prevented @ [NewFormData, Callback data], submit data)))"

text \<open>
  \<^verbatim>\<open>reset\<close> and \<^verbatim>\<open>setValue\<close> return the reference's new content, or what the host threw:
  the hook catches nothing.
\<close>

definition reset :: "form option \<Rightarrow> exn + form option" where
  "reset current =
     (case current of
        None \<Rightarrow> Inr None
      | Some f \<Rightarrow>
          if shadows f ''reset'' then Inl ''TypeError'' else Inr (Some (native_reset f)))"

definition getFormData :: "form option \<Rightarrow> parsed option" where
  "getFormData current =
     (case current of
        None \<Rightarrow> None
      | Some f \<Rightarrow>
          (let formData = FormData f;
               data = parseFormData formData
           in Some data))"


definition setValue :: "string \<Rightarrow> string \<Rightarrow> form option \<Rightarrow> exn + form option" where
  "setValue name v current =
     (case current of
        None \<Rightarrow> Inr None
      | Some f \<Rightarrow>
          if shadows f ''elements'' then Inl ''TypeError''
          else (case namedItem f name of
                  None \<Rightarrow> Inr (Some f)
                | Some element \<Rightarrow>
                    if value_in f element
                    then (case assign_value f element v of
                            Inl e \<Rightarrow> Inl e
                          | Inr g \<Rightarrow> Inr (Some g))
                    else Inr (Some f)))"

section \<open>The hook with the submit handler only\<close>

text \<open>\<^verbatim>\<open>useForm\<close> of \<^verbatim>\<open>useForm.hook.ts\<close> returns the reference and one handler, \<^verbatim>\<open>submit\<close>.\<close>

definition submit :: "(parsed \<Rightarrow> exn option) \<Rightarrow> 'e \<Rightarrow> form option \<Rightarrow> 'e effect list \<times> exn option" where
  "submit handleSubmit event current =
     (let prevented = [PreventDefault event] in
      case current of
        None \<Rightarrow> (prevented, None)
      | Some f \<Rightarrow>
          (let formData = FormData f;
               data = parseFormData formData
           in (prevented @ [NewFormData, Callback data], handleSubmit data)))"

section \<open>Mutations of a mounted form\<close>








text \<open>Two callbacks for concrete runs: one that returns and one that throws.\<close>

definition returning :: "parsed \<Rightarrow> exn option" where
  "returning data = None"

definition throwing :: "parsed \<Rightarrow> exn option" where
  "throwing data = Some ''rejected''"

section \<open>Properties of the conversion\<close>

lemma parseFormData_snoc:
  "parseFormData (es @ [e]) = add_entry (parseFormData es) e"
  by (simp add: parseFormData_def)

lemma values_of_snoc:
  "values_of n (es @ [e]) = values_of n es @ (if fst e = n then [snd e] else [])"
  by (simp add: values_of_def)

lemma shape_snoc:
  "shape (vs @ [v]) =
     (case shape vs of
        None \<Rightarrow> Some (Scalar v)
      | Some (Scalar u) \<Rightarrow> Some (Multi [u, v])
      | Some (Multi us) \<Rightarrow> Some (Multi (us @ [v])))"
  by (induction vs rule: shape.induct) simp_all

text \<open>
  The accumulation meets the contract: what a name is mapped to depends only on the values
  entered under it, in their order.
\<close>

lemma parseFormData_lookup:
  "parseFormData es n = shape (values_of n es)"
proof (induction es rule: rev_induct)
  case Nil
  show ?case by (simp add: parseFormData_def values_of_def)
next
  case (snoc e es)
  show ?case
  proof (cases "fst e = n")
    case True
    then show ?thesis
      using snoc
      by (simp add: parseFormData_snoc values_of_snoc shape_snoc add_entry_def
          split: option.splits field_value.splits)
  next
    case False
    then show ?thesis
      using snoc
      by (simp add: parseFormData_snoc values_of_snoc add_entry_def
          split: option.splits field_value.splits)
  qed
qed

lemma shape_eq_None: "shape vs = None \<longleftrightarrow> vs = []"
  by (cases vs rule: shape.cases) simp_all

lemma values_of_empty: "values_of n es = [] \<longleftrightarrow> n \<notin> fst ` set es"
  by (auto simp: values_of_def filter_empty_conv)

lemma dom_parseFormData: "dom (parseFormData es) = fst ` set es"
  by (auto simp: dom_def parseFormData_lookup shape_eq_None values_of_empty)

lemma values_of_distinct:
  "distinct (map fst es) \<Longrightarrow> e \<in> set es \<Longrightarrow> values_of (fst e) es = [snd e]"
proof (induction es)
  case Nil
  then show ?case by simp
next
  case (Cons a es)
  show ?case
  proof (cases "e = a")
    case True
    with Cons.prems have "fst a \<notin> fst ` set es" by simp
    then have "values_of (fst a) es = []" by (simp add: values_of_empty)
    with True show ?thesis by (simp add: values_of_def)
  next
    case False
    with Cons.prems have mem: "e \<in> set es" and d: "distinct (map fst es)" by simp_all
    from Cons.prems mem have "fst a \<noteq> fst e" by force
    with Cons.IH [OF d mem] show ?thesis by (simp add: values_of_def)
  qed
qed

text \<open>
  C1. When a name occurs at least twice among the entries, the record maps it to the
  sequence of all its values in occurrence order, not to the last value alone.
\<close>

theorem parseFormData_repeated_name:
  assumes "2 \<le> length (values_of n es)"
  shows "parseFormData es n = Some (Multi (values_of n es))
         \<and> parseFormData es n \<noteq> Some (Scalar (last (values_of n es)))"
  using assms by (cases "values_of n es" rule: shape.cases) (simp_all add: parseFormData_lookup)

theorem parseFormData_repeated_name_witness:
  "2 \<le> length (values_of ''tags'' [(''tags'', ''x''), (''title'', ''t''), (''tags'', ''y'')])
   \<and> values_of ''tags'' [(''tags'', ''x''), (''title'', ''t''), (''tags'', ''y'')] = [''x'', ''y'']
   \<and> parseFormData [(''tags'', ''x''), (''title'', ''t''), (''tags'', ''y'')] ''tags''
       = Some (Multi [''x'', ''y''])
   \<and> parseFormData [(''tags'', ''x''), (''title'', ''t''), (''tags'', ''y'')] ''tags''
       \<noteq> Some (Scalar ''y'')"
proof -
  have v: "values_of ''tags'' [(''tags'', ''x''), (''title'', ''t''), (''tags'', ''y'')] = [''x'', ''y'']"
    by (simp add: values_of_def)
  then have h: "2 \<le> length (values_of ''tags'' [(''tags'', ''x''), (''title'', ''t''), (''tags'', ''y'')])"
    by simp
  from parseFormData_repeated_name [OF h] v h show ?thesis by simp
qed

text \<open>
  C2. When all names of the entries differ, the record has the names as its keys, as many
  keys as there are entries, and maps each name to its entry's value as a scalar.
\<close>

theorem parseFormData_distinct_names:
  assumes "distinct (map fst es)"
  shows "dom (parseFormData es) = fst ` set es
         \<and> card (dom (parseFormData es)) = length es
         \<and> (\<forall>e \<in> set es. parseFormData es (fst e) = Some (Scalar (snd e)))"
proof -
  have "card (fst ` set es) = length es"
    using assms by (metis distinct_card length_map set_map)
  moreover have "parseFormData es (fst e) = Some (Scalar (snd e))" if "e \<in> set es" for e
    using values_of_distinct [OF assms that] by (simp add: parseFormData_lookup)
  ultimately show ?thesis by (simp add: dom_parseFormData)
qed

theorem parseFormData_distinct_names_witness:
  "distinct (map fst [(''email'', ''a@x.com''), (''password'', ''p1'')])
   \<and> dom (parseFormData [(''email'', ''a@x.com''), (''password'', ''p1'')]) = {''email'', ''password''}
   \<and> card (dom (parseFormData [(''email'', ''a@x.com''), (''password'', ''p1'')])) = 2
   \<and> parseFormData [(''email'', ''a@x.com''), (''password'', ''p1'')] ''email'' = Some (Scalar ''a@x.com'')
   \<and> parseFormData [(''email'', ''a@x.com''), (''password'', ''p1'')] ''password'' = Some (Scalar ''p1'')
   \<and> parseFormData [(''email'', ''a@x.com''), (''password'', ''p1'')] ''email'' \<noteq> Some (Multi [''a@x.com''])"
proof -
  have d: "distinct (map fst [(''email'', ''a@x.com''), (''password'', ''p1'')])" by simp
  from parseFormData_distinct_names [OF d] d show ?thesis by simp
qed

text \<open>
  C8. The empty entry sequence is converted to the empty record. The converter is a total
  function into records: it has no error result for any input.
\<close>

theorem parseFormData_empty: "parseFormData [] = Map.empty"
  by (simp add: parseFormData_def)

section \<open>Properties of the host's form\<close>

















subsection \<open>What a reset goes by\<close>


lemma static_eqI:
  "c_id c' = c_id c \<Longrightarrow> c_name c' = c_name c \<Longrightarrow> c_disabled c' = c_disabled c \<Longrightarrow>
   static_widget (c_widget c') = static_widget (c_widget c) \<Longrightarrow> static c' = static c"
  by (simp add: static_def set_widget_def)


























section \<open>Properties of the hooks\<close>

text \<open>
  C3. While the reference is unbound, \<^verbatim>\<open>reset\<close> and \<^verbatim>\<open>setValue\<close> return normally, leave it
  unbound and touch nothing, \<^verbatim>\<open>getFormData\<close> returns \<^verbatim>\<open>null\<close>, and \<^verbatim>\<open>onSubmit\<close> returns
  normally whatever the callback would do: it neither reads a form nor calls the callback,
  and its one effect is \<^verbatim>\<open>preventDefault\<close> on the event, which it calls before it looks at
  the reference.
\<close>

theorem unbound_operations:
  "reset None = Inr None
   \<and> getFormData None = None
   \<and> setValue n v None = Inr None
   \<and> onSubmit cb ev None = ([PreventDefault ev], None)"
  by (simp add: reset_def getFormData_def setValue_def onSubmit_def)

theorem unbound_operations_witness:
  "reset None = Inr None
   \<and> getFormData None = None
   \<and> setValue ''email'' ''new@x.com'' None = Inr None
   \<and> onSubmit throwing (1::nat) None = ([PreventDefault 1], None)"
  by (rule unbound_operations)

text \<open>
  So \<^verbatim>\<open>onSubmit\<close> is not without an observable effect while unbound: the event it was given
  has its default behaviour suppressed.
\<close>

theorem onSubmit_unbound_counterexample:
  "fst (onSubmit returning (1::nat) None) \<noteq> []"
  by (simp add: onSubmit_def)

text \<open>
  C4. On a bound form \<^verbatim>\<open>onSubmit\<close> performs three effects in this order: it suppresses the
  event's default behaviour, it extracts the fields, and it calls the callback, once, with
  the record parsed from the form's current entries. Its outcome is the callback's.
\<close>

theorem onSubmit_bound:
  "onSubmit cb ev (Some f) =
     ([PreventDefault ev, NewFormData, Callback (parseFormData (FormData f))],
      cb (parseFormData (FormData f)))"
  by (simp add: onSubmit_def Let_def)

theorem onSubmit_bound_witness:
  "onSubmit returning (1::nat) (Some [Control '''' ''name'' False (TextInput ''bob'' '''')])
     = ([PreventDefault 1, NewFormData, Callback [''name'' \<mapsto> Scalar ''bob'']], None)
   \<and> onSubmit throwing (1::nat) (Some [Control '''' ''name'' False (TextInput ''bob'' '''')])
     = ([PreventDefault 1, NewFormData, Callback [''name'' \<mapsto> Scalar ''bob'']], Some ''rejected'')"
proof -
  have entries: "FormData [Control '''' ''name'' False (TextInput ''bob'' '''')] = [(''name'', ''bob'')]"
    by code_simp
  have parsed: "parseFormData [(''name'', ''bob'')] = [''name'' \<mapsto> Scalar ''bob'']"
    by (simp add: parseFormData_def add_entry_def)
  from onSubmit_bound [of returning "1::nat" "[Control '''' ''name'' False (TextInput ''bob'' '''')]"]
    onSubmit_bound [of throwing "1::nat" "[Control '''' ''name'' False (TextInput ''bob'' '''')]"]
  show ?thesis
    by (simp only: entries parsed returning_def throwing_def simp_thms)
qed













text \<open>
  C10. The \<^verbatim>\<open>submit\<close> handler of the one hook and the \<^verbatim>\<open>onSubmit\<close> handler of the other do the
  same for every callback, event and state of the reference: both suppress the event's
  default behaviour first; unbound, they do nothing more; bound, they extract the fields,
  parse the entries and call the callback once with the record.
\<close>

theorem submit_equals_onSubmit:
  "submit cb ev cur = onSubmit cb ev cur
   \<and> onSubmit cb ev cur =
       (case cur of
          None \<Rightarrow> ([PreventDefault ev], None)
        | Some f \<Rightarrow>
            ([PreventDefault ev, NewFormData, Callback (parseFormData (FormData f))],
             cb (parseFormData (FormData f))))"
  by (simp add: submit_def onSubmit_def Let_def split: option.splits)

theorem submit_equals_onSubmit_witness:
  "submit returning (1::nat) (Some [Control '''' ''name'' False (TextInput ''bob'' '''')])
     = onSubmit returning 1 (Some [Control '''' ''name'' False (TextInput ''bob'' '''')])
   \<and> submit throwing (1::nat) None = onSubmit throwing 1 None
   \<and> submit throwing (1::nat) None = ([PreventDefault 1], None)"
  using submit_equals_onSubmit [of returning "1::nat" "Some [Control '''' ''name'' False (TextInput ''bob'' '''')]"]
    submit_equals_onSubmit [of throwing "1::nat" None]
  by simp

end
